theory Spec2Isabelle
  imports Main "HOL-Library.Sublist"
begin

section \<open>Values, dictionaries and exceptions\<close>

text \<open>
  The values that travel through \<^verbatim>\<open>main.py\<close> are what \<^verbatim>\<open>json\<close> decodes and encodes.
  A Python \<^verbatim>\<open>str\<close> is modelled as a \<open>string\<close>, one \<open>char\<close> for one code point (code
  points below 256). A \<^verbatim>\<open>float\<close> is carried by the text \<^verbatim>\<open>float.__repr__\<close> gives, which is
  what \<^verbatim>\<open>json.dumps\<close> writes; the only float of the program is the literal \<^verbatim>\<open>1.2\<close>.
  The model covers the scalar values; nested lists and objects as values of a tool input
  are outside it.
\<close>

datatype pyval = PNone | PBool bool | PInt int | PFloat string | PStr string

text \<open>A \<^verbatim>\<open>dict\<close> with string keys, in insertion order; \<open>map_of\<close> reads a key.\<close>

type_synonym dict = "(string \<times> pyval) list"

definition dict_get :: "dict \<Rightarrow> string \<Rightarrow> pyval \<Rightarrow> pyval" where
  "dict_get d k dflt = (case map_of d k of Some v \<Rightarrow> v | None \<Rightarrow> dflt)"

text \<open>
  The exceptions of the model: \<open>TypeError t\<close> is raised by subscripting a value of the
  Python type \<open>t\<close> that has no \<^verbatim>\<open>__getitem__\<close>; \<open>APIError m\<close> is any exception raised by the
  model service, with \<open>m\<close> its \<^verbatim>\<open>str()\<close>.
\<close>

datatype exn = TypeError string | APIError string

fun str_exn :: "exn \<Rightarrow> string" where
  "str_exn (TypeError t) = [CHR 0x27] @ t @ [CHR 0x27] @ '' object is not subscriptable''"
| "str_exn (APIError m) = m"

section \<open>\<^verbatim>\<open>json.dumps\<close>\<close>

text \<open>
  \<^verbatim>\<open>json.dumps\<close> with its defaults: \<^verbatim>\<open>ensure_ascii=True\<close>, item separator \<^verbatim>\<open>", "\<close>, key
  separator \<^verbatim>\<open>": "\<close>. Inside a string the backslash, the double quote and the characters
  outside \<^verbatim>\<open>' '..'~'\<close> are escaped.
\<close>

definition hex_digit :: "nat \<Rightarrow> char" where
  "hex_digit n = (if n < 10 then char_of (48 + n) else char_of (87 + n))"

definition json_escape :: "char \<Rightarrow> string" where
  "json_escape c =
     (if c = CHR 0x5C then [CHR 0x5C, CHR 0x5C]
      else if c = CHR 0x22 then [CHR 0x5C, CHR 0x22]
      else if c = CHR 0x08 then [CHR 0x5C, CHR ''b'']
      else if c = CHR 0x0C then [CHR 0x5C, CHR ''f'']
      else if c = CHR 0x0A then [CHR 0x5C, CHR ''n'']
      else if c = CHR 0x0D then [CHR 0x5C, CHR ''r'']
      else if c = CHR 0x09 then [CHR 0x5C, CHR ''t'']
      else if 32 \<le> (of_char c :: nat) \<and> (of_char c :: nat) \<le> 126 then [c]
      else [CHR 0x5C, CHR ''u'', CHR ''0'', CHR ''0'',
            hex_digit ((of_char c :: nat) div 16), hex_digit ((of_char c :: nat) mod 16)])"

definition json_string :: "string \<Rightarrow> string" where
  "json_string s = [CHR 0x22] @ concat (map json_escape s) @ [CHR 0x22]"

fun nat_digits :: "nat \<Rightarrow> string" where
  "nat_digits n =
     (if n < 10 then [char_of (48 + n)]
      else nat_digits (n div 10) @ [char_of (48 + n mod 10)])"

declare nat_digits.simps [simp del]

definition int_repr :: "int \<Rightarrow> string" where
  "int_repr i = (if i < 0 then CHR ''-'' # nat_digits (nat (- i)) else nat_digits (nat i))"

fun json_value :: "pyval \<Rightarrow> string" where
  "json_value PNone = ''null''"
| "json_value (PBool b) = (if b then ''true'' else ''false'')"
| "json_value (PInt i) = int_repr i"
| "json_value (PFloat r) = r"
| "json_value (PStr s) = json_string s"

fun join :: "string \<Rightarrow> string list \<Rightarrow> string" where
  "join sep [] = []"
| "join sep [x] = x"
| "join sep (x # y # ys) = x @ sep @ join sep (y # ys)"

definition json_dumps :: "dict \<Rightarrow> string" where
  "json_dumps d =
     ''{'' @ join '', '' (map (\<lambda>(k, v). json_string k @ '': '' @ json_value v) d) @ ''}''"

section \<open>Tool functions\<close>

text \<open>
  \<^verbatim>\<open>user_id[:8]\<close>: a string is sliced; every other scalar has no \<^verbatim>\<open>__getitem__\<close> and the
  subscript raises \<^verbatim>\<open>TypeError\<close>.
\<close>

fun slice8 :: "pyval \<Rightarrow> exn + string" where
  "slice8 (PStr s) = Inr (take 8 s)"
| "slice8 PNone = Inl (TypeError ''NoneType'')"
| "slice8 (PBool b) = Inl (TypeError ''bool'')"
| "slice8 (PInt i) = Inl (TypeError ''int'')"
| "slice8 (PFloat r) = Inl (TypeError ''float'')"

definition fetch_user_data :: "pyval \<Rightarrow> exn + dict" where
  "fetch_user_data user_id =
     (case slice8 user_id of
        Inl e \<Rightarrow> Inl e
      | Inr p \<Rightarrow>
          Inr [(''user_id'', user_id),
               (''name'', PStr (''User '' @ p)),
               (''email'', PStr (''user'' @ p @ ''@example.com'')),
               (''account_status'', PStr ''active'')])"

definition fetch_conversation_analytics :: "pyval \<Rightarrow> dict" where
  "fetch_conversation_analytics session_id =
     [(''session_id'', session_id),
      (''message_count'', PInt 5),
      (''avg_response_time'', PFloat ''1.2''),
      (''sentiment'', PStr ''positive'')]"

definition process_tool_call :: "string \<Rightarrow> dict \<Rightarrow> exn + string" where
  "process_tool_call tool_name tool_input =
     (if tool_name = ''fetch_user_data'' then
        (case fetch_user_data (dict_get tool_input ''user_id'' (PStr ''unknown'')) of
           Inl e \<Rightarrow> Inl e
         | Inr result \<Rightarrow> Inr (json_dumps result))
      else if tool_name = ''fetch_conversation_analytics'' then
        Inr (json_dumps
               (fetch_conversation_analytics (dict_get tool_input ''session_id'' (PStr ''unknown''))))
      else Inr (json_dumps [(''error'', PStr ''Unknown tool'')]))"

section \<open>Messages and the model service\<close>

text \<open>
  A content block of a model response is a text block (it has the attribute \<^verbatim>\<open>text\<close>) or a
  tool-use block (its \<^verbatim>\<open>type\<close> is \<^verbatim>\<open>"tool_use"\<close>; it has \<^verbatim>\<open>id\<close>, \<^verbatim>\<open>name\<close> and \<^verbatim>\<open>input\<close>).
\<close>

record tool_use =
  tu_id :: string
  tu_name :: string
  tu_input :: dict

datatype block = TextBlock string | ToolUseBlock tool_use

text \<open>The dict \<^verbatim>\<open>{"type": "tool_result", "tool_use_id": ..., "content": ...}\<close>.\<close>

record tool_result =
  tool_use_id :: string
  result_content :: string

datatype content = Plain pyval | Blocks "block list" | ToolResults "tool_result list"

record message =
  role :: string
  content :: content

record response =
  stop_reason :: string
  blocks :: "block list"

text \<open>
  \<^verbatim>\<open>claude.messages.create\<close> is outside the repository. It is a parameter of the model: a
  function of the number of calls made before this one and of the message list passed,
  which returns a response or raises.
\<close>

type_synonym service = "nat \<Rightarrow> message list \<Rightarrow> exn + response"

section \<open>\<^verbatim>\<open>SessionManager\<close>\<close>

text \<open>
  A session state is the dict with the keys \<^verbatim>\<open>messages\<close>, \<^verbatim>\<open>user_id\<close> and \<^verbatim>\<open>start_time\<close>;
  a key that is absent is \<open>None\<close>, and \<^verbatim>\<open>{}\<close> has no key. A websocket is a handle.
\<close>

record session_state =
  st_messages :: "message list option"
  st_user_id :: "string option"
  st_start_time :: "string option"

definition empty_state :: session_state where
  "empty_state = \<lparr>st_messages = None, st_user_id = None, st_start_time = None\<rparr>"

text \<open>\<^verbatim>\<open>dict.update\<close>: the keys of the argument overwrite, the others stay.\<close>

definition state_update :: "session_state \<Rightarrow> session_state \<Rightarrow> session_state" where
  "state_update st upd =
     \<lparr>st_messages = (case st_messages upd of Some m \<Rightarrow> Some m | None \<Rightarrow> st_messages st),
      st_user_id = (case st_user_id upd of Some u \<Rightarrow> Some u | None \<Rightarrow> st_user_id st),
      st_start_time = (case st_start_time upd of Some t \<Rightarrow> Some t | None \<Rightarrow> st_start_time st)\<rparr>"

type_synonym websocket = nat

record session_manager =
  active_connections :: "string \<rightharpoonup> websocket"
  session_states :: "string \<rightharpoonup> session_state"

text \<open>
  The world of a run: the manager, the frames delivered by \<^verbatim>\<open>send_json\<close> (with the
  websocket they went to, in order), and the calls made to the model service (the message
  list passed and what came back, in order).
\<close>

record world =
  manager :: session_manager
  sent :: "(websocket \<times> dict) list"
  llm_calls :: "(message list \<times> (exn + response)) list"

text \<open>
  \<^verbatim>\<open>connect\<close>: \<open>uid\<close> stands for \<^verbatim>\<open>str(uuid.uuid4())\<close> and \<open>now\<close> for
  \<^verbatim>\<open>datetime.utcnow().isoformat()\<close>.
\<close>

definition connect :: "session_manager \<Rightarrow> websocket \<Rightarrow> string \<Rightarrow> string \<Rightarrow> string \<Rightarrow> session_manager" where
  "connect m ws session_id uid now =
     \<lparr>active_connections = (active_connections m)(session_id \<mapsto> ws),
      session_states = (session_states m)(session_id \<mapsto>
        \<lparr>st_messages = Some [], st_user_id = Some uid, st_start_time = Some now\<rparr>)\<rparr>"

definition disconnect :: "session_manager \<Rightarrow> string \<Rightarrow> session_manager" where
  "disconnect m session_id =
     (if session_id \<in> dom (active_connections m)
      then m\<lparr>active_connections := (active_connections m)(session_id := None)\<rparr>
      else m)"

definition send_message :: "world \<Rightarrow> string \<Rightarrow> dict \<Rightarrow> world" where
  "send_message w session_id msg =
     (case active_connections (manager w) session_id of
        Some ws \<Rightarrow> w\<lparr>sent := sent w @ [(ws, msg)]\<rparr>
      | None \<Rightarrow> w)"

definition get_session_state :: "session_manager \<Rightarrow> string \<Rightarrow> session_state" where
  "get_session_state m session_id =
     (case session_states m session_id of Some st \<Rightarrow> st | None \<Rightarrow> empty_state)"

definition update_session_state :: "session_manager \<Rightarrow> string \<Rightarrow> session_state \<Rightarrow> session_manager" where
  "update_session_state m session_id state =
     (case session_states m session_id of
        Some st \<Rightarrow> m\<lparr>session_states := (session_states m)(session_id \<mapsto> state_update st state)\<rparr>
      | None \<Rightarrow> m)"

text \<open>The transcript stored for a session: the list under \<^verbatim>\<open>messages\<close>, if there is one.\<close>

definition transcript :: "world \<Rightarrow> string \<Rightarrow> message list" where
  "transcript w session_id =
     (case session_states (manager w) session_id of
        Some st \<Rightarrow> (case st_messages st of Some ms \<Rightarrow> ms | None \<Rightarrow> [])
      | None \<Rightarrow> [])"

section \<open>\<^verbatim>\<open>stream_llm_response\<close>\<close>

text \<open>
  \<^verbatim>\<open>for block in response.content: if hasattr(block, 'text'): response_text += block.text\<close>
\<close>

fun add_text :: "string \<Rightarrow> block list \<Rightarrow> string" where
  "add_text response_text [] = response_text"
| "add_text response_text (TextBlock t # bs) = add_text (response_text @ t) bs"
| "add_text response_text (ToolUseBlock tu # bs) = add_text response_text bs"

text \<open>\<^verbatim>\<open>[block for block in response.content if block.type == "tool_use"]\<close>\<close>

fun tool_calls :: "block list \<Rightarrow> tool_use list" where
  "tool_calls [] = []"
| "tool_calls (TextBlock t # bs) = tool_calls bs"
| "tool_calls (ToolUseBlock tu # bs) = tu # tool_calls bs"

text \<open>
  The first loop over the tool calls: each call is run and then announced to the client.
  A call that raises ends the loop; the frames sent before it stay sent.
\<close>

fun run_tools :: "world \<Rightarrow> string \<Rightarrow> tool_use list \<Rightarrow> world \<times> exn option" where
  "run_tools w session_id [] = (w, None)"
| "run_tools w session_id (tool_call # rest) =
     (case process_tool_call (tu_name tool_call) (tu_input tool_call) of
        Inl e \<Rightarrow> (w, Some e)
      | Inr tool_result \<Rightarrow>
          run_tools
            (send_message w session_id
               [(''type'', PStr ''tool_use''), (''tool'', PStr (tu_name tool_call)),
                (''status'', PStr ''completed'')])
            session_id rest)"

text \<open>The list comprehension that builds \<^verbatim>\<open>tool_results\<close>; it runs every tool again.\<close>

fun tool_results :: "tool_use list \<Rightarrow> exn + tool_result list" where
  "tool_results [] = Inr []"
| "tool_results (tool_call # rest) =
     (case process_tool_call (tu_name tool_call) (tu_input tool_call) of
        Inl e \<Rightarrow> Inl e
      | Inr c \<Rightarrow>
          (case tool_results rest of
             Inl e \<Rightarrow> Inl e
           | Inr rs \<Rightarrow> Inr (\<lparr>tool_use_id = tu_id tool_call, result_content = c\<rparr> # rs)))"

text \<open>
  The body of the \<^verbatim>\<open>while\<close> loop up to the next call of the service: the new
  \<^verbatim>\<open>response_text\<close> and \<^verbatim>\<open>messages_with_response\<close>, or the exception of a tool.
\<close>

definition tool_round ::
  "world \<Rightarrow> string \<Rightarrow> message list \<Rightarrow> string \<Rightarrow> response \<Rightarrow> world \<times> (exn + string \<times> message list)" where
  "tool_round w session_id messages response_text response =
     (let response_text1 = add_text response_text (blocks response);
          tcs = tool_calls (blocks response)
      in case run_tools w session_id tcs of
           (w1, Some e) \<Rightarrow> (w1, Inl e)
         | (w1, None) \<Rightarrow>
             (case tool_results tcs of
                Inl e \<Rightarrow> (w1, Inl e)
              | Inr rs \<Rightarrow>
                  (w1, Inr (response_text1,
                     (messages @ [\<lparr>role = ''assistant'', content = Blocks (blocks response)\<rparr>])
                       @ [\<lparr>role = ''user'', content = ToolResults rs\<rparr>]))))"

text \<open>\<^verbatim>\<open>claude.messages.create(..., messages=msgs)\<close>, recorded in the world.\<close>

definition create :: "service \<Rightarrow> world \<Rightarrow> message list \<Rightarrow> world \<times> (exn + response)" where
  "create svc w msgs =
     (let r = svc (length (llm_calls w)) msgs
      in (w\<lparr>llm_calls := llm_calls w @ [(msgs, r)]\<rparr>, r))"

text \<open>
  The \<^verbatim>\<open>while response.stop_reason == "tool_use"\<close> loop and the statements after it. The
  loop has no bound in the source, so it is a partial function: \<open>None\<close> is a run that
  never returns, \<open>Some (w, Inl e)\<close> a run that raises \<open>e\<close>, \<open>Some (w, Inr text)\<close> a run that
  returns \<open>text\<close>.
\<close>

partial_function (option) tool_loop ::
  "service \<Rightarrow> string \<Rightarrow> message list \<Rightarrow> world \<Rightarrow> string \<Rightarrow> response \<Rightarrow> (world \<times> (exn + string)) option" where
  "tool_loop svc session_id messages w response_text response =
     (if stop_reason response = ''tool_use'' then
        (case tool_round w session_id messages response_text response of
           (w1, Inl e) \<Rightarrow> Some (w1, Inl e)
         | (w1, Inr (response_text1, messages_with_response)) \<Rightarrow>
             (case create svc w1 messages_with_response of
                (w2, Inl e) \<Rightarrow> Some (w2, Inl e)
              | (w2, Inr response2) \<Rightarrow>
                  tool_loop svc session_id messages w2 response_text1 response2))
      else Some (w, Inr (add_text response_text (blocks response))))"

declare tool_loop.simps [code]

definition stream_llm_response ::
  "service \<Rightarrow> world \<Rightarrow> string \<Rightarrow> message list \<Rightarrow> (world \<times> (exn + string)) option" where
  "stream_llm_response svc w session_id messages =
     (case create svc w messages of
        (w1, Inl e) \<Rightarrow> Some (w1, Inl e)
      | (w1, Inr response) \<Rightarrow> tool_loop svc session_id messages w1 [] response)"

section \<open>\<^verbatim>\<open>websocket_endpoint\<close>\<close>

text \<open>
  \<^verbatim>\<open>messages = state.get("messages", [])\<close> is the list object held by the store when the
  session has a state with that key, and a fresh list otherwise. \<open>store_messages\<close> writes
  the effect of \<^verbatim>\<open>messages.append\<close> through to the store in the first case.
\<close>

definition store_messages :: "world \<Rightarrow> string \<Rightarrow> message list \<Rightarrow> world" where
  "store_messages w session_id ms =
     (case session_states (manager w) session_id of
        Some st \<Rightarrow>
          (case st_messages st of
             Some old \<Rightarrow>
               w\<lparr>manager := (manager w)\<lparr>session_states :=
                    (session_states (manager w))(session_id \<mapsto> st\<lparr>st_messages := Some ms\<rparr>)\<rparr>\<rparr>
           | None \<Rightarrow> w)
      | None \<Rightarrow> w)"

text \<open>
  One turn of the \<^verbatim>\<open>while True\<close> loop, from the frame \<open>data\<close> that was received.
  \<^verbatim>\<open>log_event\<close> catches every exception and writes to the external event log only; it is
  the identity on the world of the model.
\<close>

definition handle_message :: "service \<Rightarrow> world \<Rightarrow> string \<Rightarrow> dict \<Rightarrow> world option" where
  "handle_message svc w session_id data =
     (let user_message = dict_get data ''message'' (PStr []);
          state = get_session_state (manager w) session_id;
          messages = (case st_messages state of Some ms \<Rightarrow> ms | None \<Rightarrow> [])
                       @ [\<lparr>role = ''user'', content = Plain user_message\<rparr>];
          w1 = store_messages w session_id messages
      in case stream_llm_response svc w1 session_id messages of
           None \<Rightarrow> None
         | Some (w2, Inr response_text) \<Rightarrow>
             (let messages2 = messages @ [\<lparr>role = ''assistant'', content = Plain (PStr response_text)\<rparr>];
                  w3 = store_messages w2 session_id messages2;
                  w4 = w3\<lparr>manager := update_session_state (manager w3) session_id
                          \<lparr>st_messages = Some messages2, st_user_id = None, st_start_time = None\<rparr>\<rparr>
              in Some (send_message w4 session_id
                         [(''type'', PStr ''response''), (''content'', PStr response_text)]))
         | Some (w2, Inl e) \<Rightarrow>
             Some (send_message w2 session_id
                     [(''type'', PStr ''error''), (''content'', PStr (str_exn e))]))"

text \<open>
  What reaches the endpoint: a client connects, a frame arrives, the client goes away.
  The rows written to the \<^verbatim>\<open>sessions\<close> table are outside the model.
\<close>

datatype op = Connect websocket string string string | Receive string dict | Disconnect string

fun endpoint_step :: "service \<Rightarrow> world \<Rightarrow> op \<Rightarrow> world option" where
  "endpoint_step svc w (Connect ws session_id uid now) =
     Some (send_message (w\<lparr>manager := connect (manager w) ws session_id uid now\<rparr>) session_id
             [(''type'', PStr ''connection''), (''status'', PStr ''connected''),
              (''session_id'', PStr session_id)])"
| "endpoint_step svc w (Receive session_id data) = handle_message svc w session_id data"
| "endpoint_step svc w (Disconnect session_id) =
     Some (w\<lparr>manager := disconnect (manager w) session_id\<rparr>)"

definition world0 :: world where
  "world0 = \<lparr>manager = \<lparr>active_connections = Map.empty, session_states = Map.empty\<rparr>,
             sent = [], llm_calls = []\<rparr>"

text \<open>A run of the endpoint on a list of events, stopping where a run does not return.\<close>

fun run_ops :: "service \<Rightarrow> world \<Rightarrow> op list \<Rightarrow> world option" where
  "run_ops svc w [] = Some w"
| "run_ops svc w (x # xs) =
     (case endpoint_step svc w x of None \<Rightarrow> None | Some w1 \<Rightarrow> run_ops svc w1 xs)"

text \<open>The world after one client has connected as session \<^verbatim>\<open>s1\<close> on websocket 1.\<close>

definition connected_world :: world where
  "connected_world =
     send_message
       (world0\<lparr>manager := connect (manager world0) 1 ''s1'' ''user-1'' ''2024-01-01T00:00:00''\<rparr>)
       ''s1''
       [(''type'', PStr ''connection''), (''status'', PStr ''connected''),
        (''session_id'', PStr ''s1'')]"

section \<open>What a run observes\<close>


text \<open>The responses among the calls of a log, in call order.\<close>

fun responses :: "(message list \<times> (exn + response)) list \<Rightarrow> response list" where
  "responses [] = []"
| "responses ((m, Inr r) # cs) = r # responses cs"
| "responses ((m, Inl e) # cs) = responses cs"


text \<open>
  The two turns that a tool round puts behind \<^verbatim>\<open>messages\<close>: the assistant turn with the
  content of the response, and the user turn that carries the tool results.
\<close>

definition request_turn :: "response \<Rightarrow> message" where
  "request_turn r = \<lparr>role = ''assistant'', content = Blocks (blocks r)\<rparr>"

definition carrier_turn :: "tool_result list \<Rightarrow> message" where
  "carrier_turn rs = \<lparr>role = ''user'', content = ToolResults rs\<rparr>"

text \<open>No tool call of the response raises.\<close>

definition tools_ok :: "response \<Rightarrow> bool" where
  "tools_ok r = (case tool_results (tool_calls (blocks r)) of Inr rs \<Rightarrow> True | Inl e \<Rightarrow> False)"

text \<open>
  A service that answers every call, whatever the messages, with a tool-use response whose
  tool calls do not raise.
\<close>

definition always_needs_tool :: "service \<Rightarrow> bool" where
  "always_needs_tool svc =
     (\<forall>k msgs. case svc k msgs of
                  Inr r \<Rightarrow> stop_reason r = ''tool_use'' \<and> tools_ok r
                | Inl e \<Rightarrow> False)"

section \<open>Model services used as examples\<close>

text \<open>A tool-use response with the one request \<open>tc\<close>, and a final response with the text \<open>t\<close>.\<close>

definition needs_tool :: "tool_use \<Rightarrow> response" where
  "needs_tool tc = \<lparr>stop_reason = ''tool_use'', blocks = [ToolUseBlock tc]\<rparr>"

definition final :: "string \<Rightarrow> response" where
  "final t = \<lparr>stop_reason = ''end_turn'', blocks = [TextBlock t]\<rparr>"

definition analytics_call :: "nat \<Rightarrow> tool_use" where
  "analytics_call k =
     \<lparr>tu_id = ''toolu_'' @ nat_digits k, tu_name = ''fetch_conversation_analytics'',
      tu_input = [(''session_id'', PStr ''s1'')]\<rparr>"

text \<open>A service that asks for a tool on each of its first \<open>n\<close> calls and then answers.\<close>

definition rounds_service :: "nat \<Rightarrow> service" where
  "rounds_service n k msgs =
     (if k < n then Inr (needs_tool (analytics_call k)) else Inr (final ''done''))"

text \<open>A service that asks for a tool on every call.\<close>

definition always_tool_service :: service where
  "always_tool_service k msgs = Inr (needs_tool (analytics_call k))"

text \<open>
  The scenario of the account status: the first response asks for
  \<^verbatim>\<open>fetch_user_data(user_id="abc123")\<close>, the second is final.
\<close>

definition account_call :: tool_use where
  "account_call =
     \<lparr>tu_id = ''toolu_01'', tu_name = ''fetch_user_data'',
      tu_input = [(''user_id'', PStr ''abc123'')]\<rparr>"

definition account_service :: service where
  "account_service k msgs =
     (if k = 0 then Inr (needs_tool account_call) else Inr (final ''Your account is active.''))"




definition user_turn :: "dict \<Rightarrow> message" where
  "user_turn data = \<lparr>role = ''user'', content = Plain (dict_get data ''message'' (PStr []))\<rparr>"

definition assistant_turn :: "string \<Rightarrow> message" where
  "assistant_turn t = \<lparr>role = ''assistant'', content = Plain (PStr t)\<rparr>"

section \<open>Facts about serialisation and the tools\<close>

lemmas dumps_simps = json_dumps_def json_string_def json_escape_def

lemma int_repr_5: "int_repr 5 = ''5''"
  by code_simp

lemma unknown_tool_payload:
  \<open>json_dumps [(''error'', PStr ''Unknown tool'')] = ''{"error": "Unknown tool"}''\<close>
  by (simp add: dumps_simps)

lemma process_tool_call_unknown:
  \<open>tool_name \<noteq> ''fetch_user_data'' \<Longrightarrow> tool_name \<noteq> ''fetch_conversation_analytics'' \<Longrightarrow>
   process_tool_call tool_name tool_input = Inr ''{"error": "Unknown tool"}''\<close>
  by (simp add: process_tool_call_def unknown_tool_payload)

lemma process_tool_call_string_user_id:
  assumes "\<forall>v. map_of tool_input ''user_id'' = Some v \<longrightarrow> (\<exists>s. v = PStr s)"
  shows "\<exists>r. process_tool_call tool_name tool_input = Inr r"
proof (cases "map_of tool_input ''user_id''")
  case None
  then show ?thesis
    by (simp add: process_tool_call_def dict_get_def fetch_user_data_def)
next
  case (Some v)
  with assms obtain s where "v = PStr s" by blast
  with Some show ?thesis
    by (simp add: process_tool_call_def dict_get_def fetch_user_data_def)
qed

section \<open>Facts about the tool loop\<close>

lemma send_message_frame [simp]:
  "manager (send_message w sid msg) = manager w"
  "llm_calls (send_message w sid msg) = llm_calls w"
  by (simp_all add: send_message_def split: option.splits)

lemma run_tools_frame:
  "run_tools w sid tcs = (w1, r) \<Longrightarrow> manager w1 = manager w \<and> llm_calls w1 = llm_calls w"
  by (induction w sid tcs rule: run_tools.induct) (auto split: sum.splits)

lemma tool_round_frame:
  "tool_round w sid messages text response = (w1, r) \<Longrightarrow>
   manager w1 = manager w \<and> llm_calls w1 = llm_calls w"
  by (auto simp: tool_round_def Let_def split: prod.splits option.splits sum.splits
      dest: run_tools_frame)


lemma create_frame:
  "create svc w msgs = (w1, r) \<Longrightarrow>
   manager w1 = manager w \<and> sent w1 = sent w \<and> llm_calls w1 = llm_calls w @ [(msgs, r)] \<and>
   r = svc (length (llm_calls w)) msgs"
  by (auto simp: create_def Let_def)


lemma responses_append [simp]: "responses (xs @ ys) = responses xs @ responses ys"
  by (induction xs rule: responses.induct) simp_all

lemmas tool_loop_induct = tool_loop.raw_induct [rotated -1, consumes 1, case_names step]

lemma tool_loop_manager_aux:
  assumes "tool_loop svc sid messages w acc response = Some y"
  shows "manager (fst y) = manager w"
  using assms
proof (induct rule: tool_loop_induct)
  case (step f svc sid messages w acc response y)
  show ?case
  proof (cases "stop_reason response = ''tool_use''")
    case False
    with step(2) show ?thesis by auto
  next
    case True
    obtain w1 r1 where tr: "tool_round w sid messages acc response = (w1, r1)"
      by (cases "tool_round w sid messages acc response")
    from tool_round_frame [OF tr] have m1: "manager w1 = manager w" by simp
    show ?thesis
    proof (cases r1)
      case (Inl e)
      with step(2) True tr m1 show ?thesis by auto
    next
      case (Inr p)
      obtain acc1 msgs1 where p: "p = (acc1, msgs1)" by (cases p)
      obtain w2 r2 where cr: "create svc w1 msgs1 = (w2, r2)"
        by (cases "create svc w1 msgs1")
      from create_frame [OF cr] have m2: "manager w2 = manager w1" by simp
      show ?thesis
      proof (cases r2)
        case (Inl e)
        with step(2) True tr Inr p cr m1 m2 show ?thesis by auto
      next
        case (Inr response2)
        with step(2) True tr \<open>r1 = Inr p\<close> p cr
        have "f svc sid messages w2 acc1 response2 = Some y" by simp
        from step(1) [OF this] m1 m2 show ?thesis by simp
      qed
    qed
  qed
qed

lemma tool_loop_manager:
  "tool_loop svc sid messages w acc response = Some (w', res) \<Longrightarrow> manager w' = manager w"
  using tool_loop_manager_aux by fastforce





lemma run_tools_no_raise:
  "tool_results tcs = Inr rs \<Longrightarrow> snd (run_tools w sid tcs) = None"
  by (induction w sid tcs arbitrary: rs rule: run_tools.induct) (auto split: sum.splits)


lemma tool_round_ok:
  assumes "tool_results (tool_calls (blocks response)) = Inr rs"
  shows "tool_round w sid messages acc response =
     (fst (run_tools w sid (tool_calls (blocks response))),
      Inr (add_text acc (blocks response),
           messages @ [request_turn response, carrier_turn rs]))"
  using assms run_tools_no_raise [OF assms, of w sid]
  by (auto simp: tool_round_def Let_def request_turn_def carrier_turn_def split: prod.splits option.splits)


section \<open>Facts about runs that never return, and runs of any length\<close>

lemma tools_ok_results: "tools_ok r \<Longrightarrow> \<exists>rs. tool_results (tool_calls (blocks r)) = Inr rs"
  by (auto simp: tools_ok_def split: sum.splits)

lemma tool_loop_never_returns_aux:
  assumes "tool_loop svc sid messages w acc response = Some y"
  shows "\<not> (always_needs_tool svc \<and> stop_reason response = ''tool_use'' \<and> tools_ok response)"
  using assms
proof (induct rule: tool_loop_induct)
  case (step f svc sid messages w acc response y)
  show ?case
  proof
    assume a: "always_needs_tool svc \<and> stop_reason response = ''tool_use'' \<and> tools_ok response"
    then obtain rs where ok: "tool_results (tool_calls (blocks response)) = Inr rs"
      using tools_ok_results by blast
    let ?w1 = "fst (run_tools w sid (tool_calls (blocks response)))"
    let ?msgs = "messages @ [request_turn response, carrier_turn rs]"
    obtain w2 r2 where cr: "create svc ?w1 ?msgs = (w2, r2)"
      by (cases "create svc ?w1 ?msgs")
    from create_frame [OF cr] have r2: "r2 = svc (length (llm_calls ?w1)) ?msgs" by simp
    from a have "case svc (length (llm_calls ?w1)) ?msgs of
                   Inr r \<Rightarrow> stop_reason r = ''tool_use'' \<and> tools_ok r | Inl e \<Rightarrow> False"
      unfolding always_needs_tool_def by blast
    with r2 obtain response2 where
      r: "r2 = Inr response2" "stop_reason response2 = ''tool_use''" "tools_ok response2"
      by (auto split: sum.splits)
    from step(2) a cr r(1) have "f svc sid messages w2 (add_text acc (blocks response)) response2 = Some y"
      by (simp add: tool_round_ok [OF ok])
    from step(1) [OF this] a r show False by blast
  qed
qed

lemma stream_never_returns:
  assumes "always_needs_tool svc"
  shows "stream_llm_response svc w sid messages = None"
proof -
  from assms have "case svc (length (llm_calls w)) messages of
                   Inr r \<Rightarrow> stop_reason r = ''tool_use'' \<and> tools_ok r | Inl e \<Rightarrow> False"
    unfolding always_needs_tool_def by blast
  then obtain response where
    r: "svc (length (llm_calls w)) messages = Inr response" "stop_reason response = ''tool_use''"
       "tools_ok response"
    by (auto split: sum.splits)
  let ?w1 = "w\<lparr>llm_calls := llm_calls w @ [(messages, Inr response)]\<rparr>"
  have "stream_llm_response svc w sid messages = tool_loop svc sid messages ?w1 [] response"
    using r(1) by (simp add: stream_llm_response_def create_def Let_def)
  moreover have "tool_loop svc sid messages ?w1 [] response = None"
    using tool_loop_never_returns_aux [of svc sid messages ?w1 "[]" response] assms r
    by (cases "tool_loop svc sid messages ?w1 [] response") auto
  ultimately show ?thesis by simp
qed

lemma analytics_call_ok: "tools_ok (needs_tool (analytics_call k))"
  by (simp add: tools_ok_def needs_tool_def analytics_call_def process_tool_call_def)

lemma always_tool_service_always: "always_needs_tool always_tool_service"
  by (simp add: always_needs_tool_def always_tool_service_def analytics_call_ok)
     (simp add: needs_tool_def)

lemma rounds_tool_loop:
  assumes "length (llm_calls w) = Suc k" and "k \<le> n"
  shows "\<exists>w'. tool_loop (rounds_service n) sid messages w acc
                 (if k < n then needs_tool (analytics_call k) else final ''done'') =
               Some (w', Inr (acc @ ''done'')) \<and> length (llm_calls w') = Suc n"
  using assms
proof (induction "n - k" arbitrary: k w)
  case 0
  then have "k = n" by simp
  with 0 show ?case
    by (subst tool_loop.simps) (simp add: final_def)
next
  case (Suc d)
  then have lt: "k < n" by simp
  from analytics_call_ok obtain rs where
    ok: "tool_results (tool_calls (blocks (needs_tool (analytics_call k)))) = Inr rs"
    using tools_ok_results by blast
  let ?resp = "needs_tool (analytics_call k)"
  let ?w1 = "fst (run_tools w sid (tool_calls (blocks ?resp)))"
  let ?msgs = "messages @ [request_turn ?resp, carrier_turn rs]"
  have l1: "llm_calls ?w1 = llm_calls w"
    using run_tools_frame [of w sid "tool_calls (blocks ?resp)"]
    by (cases "run_tools w sid (tool_calls (blocks ?resp))") auto
  let ?next = "if Suc k < n then needs_tool (analytics_call (Suc k)) else final ''done''"
  let ?w2 = "?w1\<lparr>llm_calls := llm_calls ?w1 @ [(?msgs, Inr ?next)]\<rparr>"
  have cr: "create (rounds_service n) ?w1 ?msgs = (?w2, Inr ?next)"
    using l1 Suc.prems(1) by (simp add: create_def Let_def rounds_service_def)
  have unfold: "tool_loop (rounds_service n) sid messages w acc ?resp =
                tool_loop (rounds_service n) sid messages ?w2 acc ?next"
    by (subst tool_loop.simps)
       (simp add: tool_round_ok [OF ok] cr, simp add: needs_tool_def)
  have "d = n - Suc k" using Suc.hyps(2) by simp
  moreover have "length (llm_calls ?w2) = Suc (Suc k)" using l1 Suc.prems(1) by simp
  moreover have "Suc k \<le> n" using lt by simp
  ultimately obtain w' where
    "tool_loop (rounds_service n) sid messages ?w2 acc ?next = Some (w', Inr (acc @ ''done''))"
    "length (llm_calls w') = Suc n"
    using Suc.hyps(1) [of "Suc k" ?w2] by blast
  with unfold lt show ?case by simp
qed

lemma rounds_stream:
  "\<exists>w'. stream_llm_response (rounds_service n) world0 sid messages = Some (w', Inr ''done'') \<and>
        length (llm_calls w') = Suc n"
proof -
  let ?first = "if 0 < n then needs_tool (analytics_call 0) else final ''done''"
  let ?w1 = "world0\<lparr>llm_calls := [(messages, Inr ?first)]\<rparr>"
  have "stream_llm_response (rounds_service n) world0 sid messages =
        tool_loop (rounds_service n) sid messages ?w1 [] ?first"
    by (simp add: stream_llm_response_def create_def Let_def rounds_service_def world0_def)
  moreover have "length (llm_calls ?w1) = Suc 0" by simp
  ultimately show ?thesis
    using rounds_tool_loop [of ?w1 0 n sid messages "[]"] by simp
qed

section \<open>Facts about one turn of the endpoint\<close>

lemma stream_llm_response_manager:
  assumes "stream_llm_response svc w sid messages = Some (w', res)"
  shows "manager w' = manager w"
proof -
  obtain w1 r1 where cr: "create svc w messages = (w1, r1)" by (cases "create svc w messages")
  from create_frame [OF cr] have m1: "manager w1 = manager w" by simp
  show ?thesis
  proof (cases r1)
    case (Inl e)
    with assms cr m1 show ?thesis by (auto simp: stream_llm_response_def)
  next
    case (Inr response)
    with assms cr have "tool_loop svc sid messages w1 [] response = Some (w', res)"
      by (simp add: stream_llm_response_def)
    from tool_loop_manager [OF this] m1 show ?thesis by simp
  qed
qed




lemma store_messages_frame [simp]:
  "sent (store_messages w sid ms) = sent w"
  "llm_calls (store_messages w sid ms) = llm_calls w"
  "active_connections (manager (store_messages w sid ms)) = active_connections (manager w)"
  by (simp_all add: store_messages_def split: option.splits)

lemma store_messages_stored:
  assumes "session_states (manager w) sid = Some st" and "st_messages st = Some ms"
  shows "session_states (manager (store_messages w sid ms')) =
           (session_states (manager w))(sid \<mapsto> st\<lparr>st_messages := Some ms'\<rparr>)"
  using assms by (simp add: store_messages_def)


lemma handle_message_raises:
  assumes st: "session_states (manager w) sid = Some st" "st_messages st = Some ms"
      and run: "stream_llm_response svc (store_messages w sid (ms @ [user_turn data])) sid
                  (ms @ [user_turn data]) = Some (w2, Inl e)"
  shows "handle_message svc w sid data =
           Some (send_message w2 sid [(''type'', PStr ''error''), (''content'', PStr (str_exn e))])"
  using assms
  by (simp add: handle_message_def get_session_state_def user_turn_def Let_def)

lemma handle_message_returns:
  assumes st: "session_states (manager w) sid = Some st" "st_messages st = Some ms"
      and run: "stream_llm_response svc (store_messages w sid (ms @ [user_turn data])) sid
                  (ms @ [user_turn data]) = Some (w2, Inr t)"
  shows "\<exists>w4. handle_message svc w sid data =
           Some (send_message w4 sid [(''type'', PStr ''response''), (''content'', PStr t)]) \<and>
         sent w4 = sent w2 \<and> llm_calls w4 = llm_calls w2 \<and>
         active_connections (manager w4) = active_connections (manager w) \<and>
         session_states (manager w4) =
           (session_states (manager w))(sid \<mapsto>
              st\<lparr>st_messages := Some (ms @ [user_turn data, assistant_turn t])\<rparr>)"
proof -
  let ?msgs = "ms @ [user_turn data]"
  let ?w1 = "store_messages w sid ?msgs"
  from stream_llm_response_manager [OF run] have m2: "manager w2 = manager ?w1" .
  have s1: "session_states (manager ?w1) = (session_states (manager w))(sid \<mapsto> st\<lparr>st_messages := Some ?msgs\<rparr>)"
    using st by (rule store_messages_stored)
  let ?msgs2 = "?msgs @ [assistant_turn t]"
  let ?w3 = "store_messages w2 sid ?msgs2"
  let ?w4 = "?w3\<lparr>manager := update_session_state (manager ?w3) sid
              \<lparr>st_messages = Some ?msgs2, st_user_id = None, st_start_time = None\<rparr>\<rparr>"
  have s2: "session_states (manager w2) sid = Some (st\<lparr>st_messages := Some ?msgs\<rparr>)"
    using m2 s1 by simp
  have s3: "session_states (manager ?w3) =
              (session_states (manager w2))(sid \<mapsto> st\<lparr>st_messages := Some ?msgs2\<rparr>)"
    using s2 by (simp add: store_messages_def)
  have s4: "session_states (manager ?w4) =
              (session_states (manager w))(sid \<mapsto> st\<lparr>st_messages := Some ?msgs2\<rparr>)"
    using s3 m2 s1 by (cases st) (simp add: update_session_state_def state_update_def)
  have a4: "active_connections (manager ?w4) = active_connections (manager w)"
    using m2 s3 by (simp add: update_session_state_def)
  have h: "handle_message svc w sid data =
             Some (send_message ?w4 sid [(''type'', PStr ''response''), (''content'', PStr t)])"
    using st run
    by (simp add: handle_message_def get_session_state_def user_turn_def assistant_turn_def Let_def)
  show ?thesis
    by (rule exI [of _ ?w4]) (use h s4 a4 in simp)
qed

lemma send_message_sent:
  "active_connections (manager w) sid = Some ws \<Longrightarrow> sent (send_message w sid msg) = sent w @ [(ws, msg)]"
  by (simp add: send_message_def)





lemma stream_single_round_final:
  assumes conn: "active_connections (manager w) sid = Some ws"
      and first: "svc (length (llm_calls w)) messages = Inr (needs_tool tc)"
      and tool: "process_tool_call (tu_name tc) (tu_input tc) = Inr c"
      and second: "svc (Suc (length (llm_calls w)))
                     (messages @ [request_turn (needs_tool tc),
                                  carrier_turn [\<lparr>tool_use_id = tu_id tc, result_content = c\<rparr>]]) =
                   Inr \<lparr>stop_reason = sr, blocks = [TextBlock t]\<rparr>"
                  "sr \<noteq> ''tool_use''"
  shows "\<exists>w2. stream_llm_response svc w sid messages = Some (w2, Inr t) \<and>
           sent w2 = sent w @ [(ws, [(''type'', PStr ''tool_use''), (''tool'', PStr (tu_name tc)),
                                    (''status'', PStr ''completed'')])]"
  using assms
  by (simp add: stream_llm_response_def create_def Let_def tool_loop.simps tool_round_def
      needs_tool_def request_turn_def carrier_turn_def send_message_def)

lemma stream_single_round_raises:
  assumes conn: "active_connections (manager w) sid = Some ws"
      and first: "svc (length (llm_calls w)) messages = Inr (needs_tool tc)"
      and tool: "process_tool_call (tu_name tc) (tu_input tc) = Inr c"
      and second: "svc (Suc (length (llm_calls w)))
                     (messages @ [request_turn (needs_tool tc),
                                  carrier_turn [\<lparr>tool_use_id = tu_id tc, result_content = c\<rparr>]]) =
                   Inl e"
  shows "\<exists>w2. stream_llm_response svc w sid messages = Some (w2, Inl e) \<and>
           sent w2 = sent w @ [(ws, [(''type'', PStr ''tool_use''), (''tool'', PStr (tu_name tc)),
                                    (''status'', PStr ''completed'')])]"
  using assms
  by (simp add: stream_llm_response_def create_def Let_def tool_loop.simps tool_round_def
      needs_tool_def request_turn_def carrier_turn_def send_message_def)


lemma send_message_transcript [simp]: "transcript (send_message w sid0 msg) sid = transcript w sid"
  by (simp add: transcript_def)


lemma connected_world_facts:
  "active_connections (manager connected_world) ''s1'' = Some 1"
  "session_states (manager connected_world) ''s1'' =
     Some \<lparr>st_messages = Some [], st_user_id = Some ''user-1'',
           st_start_time = Some ''2024-01-01T00:00:00''\<rparr>"
  "llm_calls connected_world = []"
  "sent connected_world =
     [(1, [(''type'', PStr ''connection''), (''status'', PStr ''connected''),
           (''session_id'', PStr ''s1'')])]"
  by (simp_all add: connected_world_def connect_def world0_def send_message_def)

section \<open>Facts about the events of the endpoint\<close>






lemma handle_message_unknown_manager:
  assumes none: "session_states (manager w) sid = None"
      and h: "handle_message svc w sid data = Some w'"
  shows "manager w' = manager w"
proof -
  have s: "store_messages w2 sid ms = w2" if "manager w2 = manager w" for w2 ms
    using that none by (simp add: store_messages_def)
  have u: "update_session_state (manager w) sid state = manager w" for state
    using none by (simp add: update_session_state_def)
  have g: "st_messages (get_session_state (manager w) sid) = None"
    using none by (simp add: get_session_state_def empty_state_def)
  let ?msgs = "[user_turn data]"
  from h g s [of w] obtain w2 res where run: "stream_llm_response svc w sid ?msgs = Some (w2, res)"
    by (auto simp: handle_message_def Let_def user_turn_def split: option.splits)
  have m2: "manager w2 = manager w"
    by (rule stream_llm_response_manager [where svc = svc, OF run])
  show ?thesis
  proof (cases res)
    case (Inl e)
    with h g s [of w] run m2 show ?thesis
      by (auto simp: handle_message_def Let_def user_turn_def)
  next
    case (Inr t)
    with h g s [of w] s [OF m2] run m2 u show ?thesis
      by (auto simp: handle_message_def Let_def user_turn_def)
  qed
qed

section \<open>The claims\<close>

subsection \<open>C4: what \<^verbatim>\<open>process_tool_call\<close> returns, and when it raises\<close>

text \<open>
  C4, as the code has it. For a name that is not a registered tool, \<open>process_tool_call\<close>
  returns the serialised payload \<^verbatim>\<open>{"error": "Unknown tool"}\<close> whatever the input is, and
  the round of the loop goes on: the client is told of the call and the carrier turn holds
  that payload as the result. \<^verbatim>\<open>fetch_conversation_analytics\<close> returns a string for every
  input. With any tool name, an input whose \<^verbatim>\<open>user_id\<close>, when present, is a string (as the
  schema of \<^verbatim>\<open>fetch_user_data\<close> declares) gives a string and no exception.
\<close>

theorem process_tool_call_total_on_schema:
  \<open>(tool_name \<noteq> ''fetch_user_data'' \<and> tool_name \<noteq> ''fetch_conversation_analytics'' \<longrightarrow>
      process_tool_call tool_name tool_input = Inr ''{"error": "Unknown tool"}'' \<and>
      tool_round w session_id messages response_text
          \<lparr>stop_reason = ''tool_use'',
           blocks = [ToolUseBlock \<lparr>tu_id = i, tu_name = tool_name, tu_input = tool_input\<rparr>]\<rparr> =
        (send_message w session_id
           [(''type'', PStr ''tool_use''), (''tool'', PStr tool_name), (''status'', PStr ''completed'')],
         Inr (response_text,
              messages @
              [\<lparr>role = ''assistant'',
                content = Blocks [ToolUseBlock \<lparr>tu_id = i, tu_name = tool_name, tu_input = tool_input\<rparr>]\<rparr>,
               \<lparr>role = ''user'',
                content = ToolResults [\<lparr>tool_use_id = i, result_content = ''{"error": "Unknown tool"}''\<rparr>]\<rparr>])))
   \<and> (tool_name = ''fetch_conversation_analytics'' \<longrightarrow>
        (\<exists>r. process_tool_call tool_name tool_input = Inr r))
   \<and> ((\<forall>v. map_of tool_input ''user_id'' = Some v \<longrightarrow> (\<exists>s. v = PStr s)) \<longrightarrow>
        (\<exists>r. process_tool_call tool_name tool_input = Inr r))\<close>
proof (intro conjI impI)
  assume u: "tool_name \<noteq> ''fetch_user_data'' \<and> tool_name \<noteq> ''fetch_conversation_analytics''"
  then show p: \<open>process_tool_call tool_name tool_input = Inr ''{"error": "Unknown tool"}''\<close>
    by (simp add: process_tool_call_unknown)
  show \<open>tool_round w session_id messages response_text
          \<lparr>stop_reason = ''tool_use'',
           blocks = [ToolUseBlock \<lparr>tu_id = i, tu_name = tool_name, tu_input = tool_input\<rparr>]\<rparr> =
        (send_message w session_id
           [(''type'', PStr ''tool_use''), (''tool'', PStr tool_name), (''status'', PStr ''completed'')],
         Inr (response_text,
              messages @
              [\<lparr>role = ''assistant'',
                content = Blocks [ToolUseBlock \<lparr>tu_id = i, tu_name = tool_name, tu_input = tool_input\<rparr>]\<rparr>,
               \<lparr>role = ''user'',
                content = ToolResults [\<lparr>tool_use_id = i, result_content = ''{"error": "Unknown tool"}''\<rparr>]\<rparr>]))\<close>
    using p by (simp add: tool_round_def)
next
  assume "tool_name = ''fetch_conversation_analytics''"
  then show "\<exists>r. process_tool_call tool_name tool_input = Inr r"
    by (simp add: process_tool_call_def)
next
  assume "\<forall>v. map_of tool_input ''user_id'' = Some v \<longrightarrow> (\<exists>s. v = PStr s)"
  then show "\<exists>r. process_tool_call tool_name tool_input = Inr r"
    by (rule process_tool_call_string_user_id)
qed

theorem process_tool_call_total_on_schema_witness:
  \<open>''lookup_weather'' \<noteq> ''fetch_user_data'' \<and> ''lookup_weather'' \<noteq> ''fetch_conversation_analytics'' \<and>
   process_tool_call ''lookup_weather'' [(''city'', PStr ''Pune'')] = Inr ''{"error": "Unknown tool"}'' \<and>
   map_of [(''user_id'', PStr ''abc123'')] ''user_id'' = Some (PStr ''abc123'') \<and>
   (\<exists>r. process_tool_call ''fetch_user_data'' [(''user_id'', PStr ''abc123'')] = Inr r) \<and>
   (\<exists>r. process_tool_call ''fetch_conversation_analytics'' [(''session_id'', PInt 7)] = Inr r)\<close>
  using process_tool_call_total_on_schema [of "''lookup_weather''" "[(''city'', PStr ''Pune'')]"]
    process_tool_call_total_on_schema [of "''fetch_user_data''" "[(''user_id'', PStr ''abc123'')]"]
    process_tool_call_total_on_schema [of "''fetch_conversation_analytics''" "[(''session_id'', PInt 7)]"]
  by simp

text \<open>
  C4 as stated fails: the input \<^verbatim>\<open>{"user_id": 123}\<close> makes \<^verbatim>\<open>fetch_user_data\<close> subscript an
  integer, and \<^verbatim>\<open>process_tool_call\<close> raises \<^verbatim>\<open>TypeError\<close>.
\<close>

theorem process_tool_call_non_string_user_id_raises:
  "process_tool_call ''fetch_user_data'' [(''user_id'', PInt 123)] = Inl (TypeError ''int'')"
  by (simp add: process_tool_call_def dict_get_def fetch_user_data_def)

subsection \<open>C10: a registered tool called without its parameter\<close>

text \<open>
  C10. When the input of \<^verbatim>\<open>fetch_user_data\<close> has no \<^verbatim>\<open>user_id\<close>, the call does not fail: the
  parameter is \<^verbatim>\<open>"unknown"\<close> and the string returned is the serialised user record of
  \<^verbatim>\<open>"unknown"\<close>. When the input of \<^verbatim>\<open>fetch_conversation_analytics\<close> has no \<^verbatim>\<open>session_id\<close>, the
  string returned is the serialised analytics record of \<^verbatim>\<open>"unknown"\<close>.
\<close>

theorem process_tool_call_missing_parameter:
  \<open>(map_of tool_input ''user_id'' = None \<longrightarrow>
      fetch_user_data (PStr ''unknown'') =
        Inr [(''user_id'', PStr ''unknown''), (''name'', PStr ''User unknown''),
             (''email'', PStr ''userunknown@example.com''), (''account_status'', PStr ''active'')] \<and>
      process_tool_call ''fetch_user_data'' tool_input =
        Inr (json_dumps [(''user_id'', PStr ''unknown''), (''name'', PStr ''User unknown''),
             (''email'', PStr ''userunknown@example.com''), (''account_status'', PStr ''active'')]) \<and>
      process_tool_call ''fetch_user_data'' tool_input =
        Inr ''{"user_id": "unknown", "name": "User unknown", "email": "userunknown@example.com", "account_status": "active"}'')
   \<and> (map_of tool_input ''session_id'' = None \<longrightarrow>
      process_tool_call ''fetch_conversation_analytics'' tool_input =
        Inr (json_dumps (fetch_conversation_analytics (PStr ''unknown''))) \<and>
      process_tool_call ''fetch_conversation_analytics'' tool_input =
        Inr ''{"session_id": "unknown", "message_count": 5, "avg_response_time": 1.2, "sentiment": "positive"}'')\<close>
  by (simp add: process_tool_call_def dict_get_def fetch_user_data_def
      fetch_conversation_analytics_def dumps_simps int_repr_5)

theorem process_tool_call_missing_parameter_witness:
  \<open>map_of [(''verbose'', PBool True)] ''user_id'' = None \<and>
   map_of [(''verbose'', PBool True)] ''session_id'' = None \<and>
   process_tool_call ''fetch_user_data'' [(''verbose'', PBool True)] =
     Inr ''{"user_id": "unknown", "name": "User unknown", "email": "userunknown@example.com", "account_status": "active"}'' \<and>
   process_tool_call ''fetch_conversation_analytics'' [(''verbose'', PBool True)] =
     Inr ''{"session_id": "unknown", "message_count": 5, "avg_response_time": 1.2, "sentiment": "positive"}''\<close>
proof -
  have h1: "map_of [(''verbose'', PBool True)] ''user_id'' = None" by simp
  have h2: "map_of [(''verbose'', PBool True)] ''session_id'' = None" by simp
  from process_tool_call_missing_parameter [of "[(''verbose'', PBool True)]"] h1 h2
  show ?thesis by blast
qed

subsection \<open>C1: the messages passed to the later calls of the service\<close>

text \<open>
  C1 at a run with two tool rounds. The service asks for a tool on its first and second
  call and answers on the third. The second call receives the user message and the two
  turns of round 1. The third call receives the user message and the two turns of round 2
  only: \<^verbatim>\<open>messages_with_response\<close> is built from \<^verbatim>\<open>messages\<close> again in every round, so the
  turns of round 1 are not in it.
\<close>

theorem third_call_lacks_first_round:
  "map_option (\<lambda>(w', r). (map fst (llm_calls w'), r))
     (stream_llm_response (rounds_service 2) world0 ''s1'' [user_turn [(''message'', PStr ''hi'')]]) =
   Some ([[user_turn [(''message'', PStr ''hi'')]],
          [user_turn [(''message'', PStr ''hi'')],
           request_turn (needs_tool (analytics_call 0)),
           carrier_turn [\<lparr>tool_use_id = ''toolu_0'',
              result_content = json_dumps (fetch_conversation_analytics (PStr ''s1''))\<rparr>]],
          [user_turn [(''message'', PStr ''hi'')],
           request_turn (needs_tool (analytics_call 1)),
           carrier_turn [\<lparr>tool_use_id = ''toolu_1'',
              result_content = json_dumps (fetch_conversation_analytics (PStr ''s1''))\<rparr>]]],
         Inr ''done'')"
  by code_simp

subsection \<open>C2: the two turns of a tool round\<close>






subsection \<open>C3: the text returned by a run\<close>



subsection \<open>C5: no bound on the round trips\<close>

text \<open>
  C5, as the code has it. The loop has no cap on the round trips of one user turn. Against
  a service that answers every call with a tool-use response whose tools do not raise, the
  run never returns. And no number of round trips is refused: for every \<open>n\<close>, against a
  service that asks for a tool on its first \<open>n\<close> calls and then answers, the run makes
  \<open>n + 1\<close> calls and returns the answer.
\<close>

theorem no_round_trip_cap:
  "(always_needs_tool svc \<longrightarrow> stream_llm_response svc w sid messages = None) \<and>
   (\<exists>w'. stream_llm_response (rounds_service n) world0 sid messages = Some (w', Inr ''done'') \<and>
         length (llm_calls w') = Suc n)"
  using stream_never_returns rounds_stream by blast

theorem no_round_trip_cap_witness:
  "always_needs_tool (\<lambda>k msgs. Inr (needs_tool (analytics_call 7))) \<and>
   stream_llm_response (\<lambda>k msgs. Inr (needs_tool (analytics_call 7))) world0 ''s2'' [] = None"
proof -
  have h: "always_needs_tool (\<lambda>k msgs. Inr (needs_tool (analytics_call 7)))"
    by (simp add: always_needs_tool_def analytics_call_ok) (simp add: needs_tool_def)
  from no_round_trip_cap [of "\<lambda>k msgs. Inr (needs_tool (analytics_call 7))" world0 "''s2''" "[]"] h
  show ?thesis by blast
qed


text \<open>
  C5 as stated fails: against the service that asks for \<^verbatim>\<open>fetch_conversation_analytics\<close> on
  every call, the run for one user message does not return, with no failure either.
\<close>

theorem tool_loop_never_ends:
  "stream_llm_response always_tool_service world0 ''s1'' [user_turn [(''message'', PStr ''hi'')]] = None"
  using always_tool_service_always by (rule stream_never_returns)

subsection \<open>C6: the service raises on the first call\<close>



subsection \<open>C7: one tool round, as seen by the client and by the store\<close>

text \<open>
  C7, as the code has it. A session is open, with a stored transcript; the first response
  to a user message asks for one tool, whose call does not raise. When the second response
  is final with one text block, the client is sent one \<^verbatim>\<open>tool_use\<close> frame naming the tool and
  then one \<^verbatim>\<open>response\<close> frame with that text, and the stored transcript gains two turns:
  the user message and the final assistant turn. The assistant turn with the request and
  the turn that carries the tool result are in the message list of the second call only;
  they are never stored. When the second call raises, the client is sent the \<^verbatim>\<open>tool_use\<close>
  frame and an \<^verbatim>\<open>error\<close> frame, and the stored transcript gains the user message only.
\<close>

theorem single_tool_round:
  assumes conn: "active_connections (manager w) sid = Some ws"
      and st: "session_states (manager w) sid = Some st" "st_messages st = Some ms"
      and first: "svc (length (llm_calls w)) (ms @ [user_turn data]) = Inr (needs_tool tc)"
      and tool: "process_tool_call (tu_name tc) (tu_input tc) = Inr c"
  shows "(\<forall>sr t.
            svc (Suc (length (llm_calls w)))
              (ms @ [user_turn data, request_turn (needs_tool tc),
                     carrier_turn [\<lparr>tool_use_id = tu_id tc, result_content = c\<rparr>]]) =
              Inr \<lparr>stop_reason = sr, blocks = [TextBlock t]\<rparr> \<and> sr \<noteq> ''tool_use'' \<longrightarrow>
            (\<exists>w'. handle_message svc w sid data = Some w' \<and>
               sent w' = sent w @
                 [(ws, [(''type'', PStr ''tool_use''), (''tool'', PStr (tu_name tc)),
                        (''status'', PStr ''completed'')]),
                  (ws, [(''type'', PStr ''response''), (''content'', PStr t)])] \<and>
               transcript w' sid = ms @ [user_turn data, assistant_turn t])) \<and>
         (\<forall>e.
            svc (Suc (length (llm_calls w)))
              (ms @ [user_turn data, request_turn (needs_tool tc),
                     carrier_turn [\<lparr>tool_use_id = tu_id tc, result_content = c\<rparr>]]) = Inl e \<longrightarrow>
            (\<exists>w'. handle_message svc w sid data = Some w' \<and>
               sent w' = sent w @
                 [(ws, [(''type'', PStr ''tool_use''), (''tool'', PStr (tu_name tc)),
                        (''status'', PStr ''completed'')]),
                  (ws, [(''type'', PStr ''error''), (''content'', PStr (str_exn e))])] \<and>
               transcript w' sid = ms @ [user_turn data]))"
proof (intro conjI allI impI)
  let ?msgs = "ms @ [user_turn data]"
  let ?w1 = "store_messages w sid ?msgs"
  let ?tool = "(ws, [(''type'', PStr ''tool_use''), (''tool'', PStr (tu_name tc)),
                     (''status'', PStr ''completed'')])"
  have conn1: "active_connections (manager ?w1) sid = Some ws" using conn by simp
  have first1: "svc (length (llm_calls ?w1)) ?msgs = Inr (needs_tool tc)" using first by simp
  {
    fix sr t
    assume a: "svc (Suc (length (llm_calls w)))
              (ms @ [user_turn data, request_turn (needs_tool tc),
                     carrier_turn [\<lparr>tool_use_id = tu_id tc, result_content = c\<rparr>]]) =
              Inr \<lparr>stop_reason = sr, blocks = [TextBlock t]\<rparr> \<and> sr \<noteq> ''tool_use''"
    then have sec: "svc (Suc (length (llm_calls ?w1)))
              (?msgs @ [request_turn (needs_tool tc),
                     carrier_turn [\<lparr>tool_use_id = tu_id tc, result_content = c\<rparr>]]) =
              Inr \<lparr>stop_reason = sr, blocks = [TextBlock t]\<rparr>" and sr: "sr \<noteq> ''tool_use''"
      by simp_all
    from stream_single_round_final [where svc = svc, OF conn1 first1 tool sec sr]
    obtain w2 where run: "stream_llm_response svc ?w1 sid ?msgs = Some (w2, Inr t)"
      and s2: "sent w2 = sent ?w1 @ [?tool]" by blast
    from handle_message_returns [where svc = svc, OF st run] obtain w4 where
      h: "handle_message svc w sid data =
            Some (send_message w4 sid [(''type'', PStr ''response''), (''content'', PStr t)])"
      and s4: "sent w4 = sent w2"
      and a4: "active_connections (manager w4) = active_connections (manager w)"
      and t4: "session_states (manager w4) =
           (session_states (manager w))(sid \<mapsto>
              st\<lparr>st_messages := Some (ms @ [user_turn data, assistant_turn t])\<rparr>)"
      by blast
    let ?w' = "send_message w4 sid [(''type'', PStr ''response''), (''content'', PStr t)]"
    have c4: "active_connections (manager w4) sid = Some ws" using conn a4 by simp
    have "sent ?w' = sent w @ [?tool, (ws, [(''type'', PStr ''response''), (''content'', PStr t)])]"
      using send_message_sent [OF c4] s4 s2 by simp
    moreover have "transcript ?w' sid = ms @ [user_turn data, assistant_turn t]"
      using t4 by (simp add: transcript_def)
    ultimately show "\<exists>w'. handle_message svc w sid data = Some w' \<and>
               sent w' = sent w @
                 [(ws, [(''type'', PStr ''tool_use''), (''tool'', PStr (tu_name tc)),
                        (''status'', PStr ''completed'')]),
                  (ws, [(''type'', PStr ''response''), (''content'', PStr t)])] \<and>
               transcript w' sid = ms @ [user_turn data, assistant_turn t]"
      using h by blast
  }
  {
    fix e
    assume a: "svc (Suc (length (llm_calls w)))
              (ms @ [user_turn data, request_turn (needs_tool tc),
                     carrier_turn [\<lparr>tool_use_id = tu_id tc, result_content = c\<rparr>]]) = Inl e"
    then have sec: "svc (Suc (length (llm_calls ?w1)))
              (?msgs @ [request_turn (needs_tool tc),
                     carrier_turn [\<lparr>tool_use_id = tu_id tc, result_content = c\<rparr>]]) = Inl e"
      by simp
    from stream_single_round_raises [where svc = svc, OF conn1 first1 tool sec]
    obtain w2 where run: "stream_llm_response svc ?w1 sid ?msgs = Some (w2, Inl e)"
      and s2: "sent w2 = sent ?w1 @ [?tool]" by blast
    from stream_llm_response_manager [where svc = svc, OF run]
    have m2: "manager w2 = manager ?w1" .
    let ?w' = "send_message w2 sid [(''type'', PStr ''error''), (''content'', PStr (str_exn e))]"
    from handle_message_raises [where svc = svc, OF st run]
    have h: "handle_message svc w sid data = Some ?w'" .
    have c2: "active_connections (manager w2) sid = Some ws" using m2 conn1 by simp
    have "sent ?w' = sent w @ [?tool, (ws, [(''type'', PStr ''error''), (''content'', PStr (str_exn e))])]"
      using send_message_sent [OF c2] s2 by simp
    moreover have "transcript ?w' sid = ms @ [user_turn data]"
      using m2 store_messages_stored [OF st, of ?msgs] by (simp add: transcript_def)
    ultimately show "\<exists>w'. handle_message svc w sid data = Some w' \<and>
               sent w' = sent w @
                 [(ws, [(''type'', PStr ''tool_use''), (''tool'', PStr (tu_name tc)),
                        (''status'', PStr ''completed'')]),
                  (ws, [(''type'', PStr ''error''), (''content'', PStr (str_exn e))])] \<and>
               transcript w' sid = ms @ [user_turn data]"
      using h by blast
  }
qed

theorem single_tool_round_witness:
  \<open>\<exists>w'. handle_message account_service connected_world ''s1''
            [(''message'', PStr ''What is my account status?'')] = Some w' \<and>
     sent w' = sent connected_world @
       [(1, [(''type'', PStr ''tool_use''), (''tool'', PStr ''fetch_user_data''),
             (''status'', PStr ''completed'')]),
        (1, [(''type'', PStr ''response''), (''content'', PStr ''Your account is active.'')])] \<and>
     transcript w' ''s1'' =
       [user_turn [(''message'', PStr ''What is my account status?'')],
        assistant_turn ''Your account is active.'']\<close>
proof -
  let ?st = "\<lparr>st_messages = Some [], st_user_id = Some ''user-1'',
              st_start_time = Some ''2024-01-01T00:00:00''\<rparr>"
  let ?data = "[(''message'', PStr ''What is my account status?'')]"
  let ?c = \<open>''{"user_id": "abc123", "name": "User abc123", "email": "userabc123@example.com", "account_status": "active"}''\<close>
  have ms: "st_messages ?st = Some []" by simp
  have first: "account_service (length (llm_calls connected_world)) ([] @ [user_turn ?data]) =
               Inr (needs_tool account_call)"
    by (simp add: account_service_def connected_world_facts)
  have tool: "process_tool_call (tu_name account_call) (tu_input account_call) = Inr ?c"
    by code_simp
  have second: "account_service (Suc (length (llm_calls connected_world)))
              ([] @ [user_turn ?data, request_turn (needs_tool account_call),
                     carrier_turn [\<lparr>tool_use_id = tu_id account_call, result_content = ?c\<rparr>]]) =
              Inr \<lparr>stop_reason = ''end_turn'', blocks = [TextBlock ''Your account is active.'']\<rparr> \<and>
              ''end_turn'' \<noteq> ''tool_use''"
    by (simp add: account_service_def final_def)
  have name: "tu_name account_call = ''fetch_user_data''" by (simp add: account_call_def)
  from single_tool_round [where svc = account_service,
         OF connected_world_facts(1) connected_world_facts(2) ms first tool] second
  have "\<exists>w'. handle_message account_service connected_world ''s1'' ?data = Some w' \<and>
     sent w' = sent connected_world @
       [(1, [(''type'', PStr ''tool_use''), (''tool'', PStr (tu_name account_call)),
             (''status'', PStr ''completed'')]),
        (1, [(''type'', PStr ''response''), (''content'', PStr ''Your account is active.'')])] \<and>
     transcript w' ''s1'' = [] @ [user_turn ?data, assistant_turn ''Your account is active.'']"
    by blast
  with name show ?thesis by simp
qed


text \<open>
  C7 as stated fails: in the scenario of the account status the stored transcript holds two
  turns after the run, the user message and the final assistant turn, not four.
\<close>

theorem stored_transcript_has_two_turns:
  "map_option (\<lambda>w'. transcript w' ''s1'')
     (run_ops account_service world0
        [Connect 1 ''s1'' ''user-1'' ''2024-01-01T00:00:00'',
         Receive ''s1'' [(''message'', PStr ''What is my account status?'')]]) =
   Some [user_turn [(''message'', PStr ''What is my account status?'')],
         assistant_turn ''Your account is active.'']"
  by code_simp

subsection \<open>C8: how the stored transcript changes\<close>







subsection \<open>C9: a session id that the store does not hold\<close>

text \<open>
  C9, as the code has it. For a session id with no state in the store,
  \<open>update_session_state\<close> returns the store as it was and reports nothing,
  \<open>get_session_state\<close> returns the empty state, and a message handled for that id leaves
  the store as it was: no turn is stored and no error is raised.
\<close>

theorem unknown_session_is_silent:
  assumes "session_states (manager w) sid = None"
  shows "update_session_state (manager w) sid state = manager w \<and>
         get_session_state (manager w) sid = empty_state \<and>
         (\<forall>w'. handle_message svc w sid data = Some w' \<longrightarrow>
               manager w' = manager w \<and> transcript w' sid = [])"
proof (intro conjI allI impI)
  show "update_session_state (manager w) sid state = manager w"
    using assms by (simp add: update_session_state_def)
  show "get_session_state (manager w) sid = empty_state"
    using assms by (simp add: get_session_state_def)
  fix w' assume h: "handle_message svc w sid data = Some w'"
  from handle_message_unknown_manager [where svc = svc, OF assms h]
  show m: "manager w' = manager w" .
  show "transcript w' sid = []" using m assms by (simp add: transcript_def)
qed


theorem unknown_session_is_silent_witness:
  "session_states (manager world0) ''ghost'' = None \<and>
   get_session_state (manager world0) ''ghost'' = empty_state \<and>
   update_session_state (manager world0) ''ghost''
     \<lparr>st_messages = Some [user_turn [(''message'', PStr ''hi'')]], st_user_id = None,
      st_start_time = None\<rparr> = manager world0"
proof -
  have h: "session_states (manager world0) ''ghost'' = None" by (simp add: world0_def)
  from unknown_session_is_silent [OF h] h show ?thesis by blast
qed


text \<open>
  C9 as stated fails: for the id \<^verbatim>\<open>ghost\<close>, which no connect has created, writing a
  transcript with \<open>update_session_state\<close> gives back the same store, and a message
  handled for \<^verbatim>\<open>ghost\<close> returns with nothing stored and no frame sent.
\<close>

theorem append_to_unknown_session_reports_nothing:
  "update_session_state (manager connected_world) ''ghost''
     \<lparr>st_messages = Some [user_turn [(''message'', PStr ''hi'')]], st_user_id = None,
      st_start_time = None\<rparr> = manager connected_world \<and>
   map_option (\<lambda>w'. (transcript w' ''ghost'', sent w'))
     (handle_message (rounds_service 0) world0 ''ghost'' [(''message'', PStr ''hi'')]) =
   Some ([], [])"
proof
  show "update_session_state (manager connected_world) ''ghost''
     \<lparr>st_messages = Some [user_turn [(''message'', PStr ''hi'')]], st_user_id = None,
      st_start_time = None\<rparr> = manager connected_world"
    by (simp add: update_session_state_def connected_world_def connect_def world0_def)
  show "map_option (\<lambda>w'. (transcript w' ''ghost'', sent w'))
     (handle_message (rounds_service 0) world0 ''ghost'' [(''message'', PStr ''hi'')]) =
   Some ([], [])"
    by code_simp
qed

end
